theory Spec2Isabelle
  imports Main "HOL-Library.Word" "HOL-Library.Sublist"
begin

section \<open>JavaScript values\<close>

text \<open>
  A JavaScript string is a sequence of 16-bit code units. The literals of the source
  are ASCII and are written \<open>lit ''...''\<close>.
\<close>

type_synonym jsstring = "16 word list"

definition lit :: "string \<Rightarrow> jsstring" where
  "lit s = map of_char s"

text \<open>\<open>String.prototype.startsWith\<close>, searching from position 0.\<close>

definition startsWith :: "jsstring \<Rightarrow> jsstring \<Rightarrow> bool" where
  "startsWith s p = (take (length p) s = p)"

text \<open>
  \<open>String.prototype.trim\<close> strips WhiteSpace and LineTerminator code units from both
  ends: TAB, LF, VT, FF, CR, SP, NBSP, the Unicode space separators, LS, PS and the
  byte order mark.
\<close>

definition is_ws :: "16 word \<Rightarrow> bool" where
  "is_ws c = (c \<in> {0x09, 0x0A, 0x0B, 0x0C, 0x0D, 0x20, 0xA0, 0x1680, 0x2028, 0x2029,
                   0x202F, 0x205F, 0x3000, 0xFEFF} \<or> (0x2000 \<le> c \<and> c \<le> 0x200A))"

definition trim :: "jsstring \<Rightarrow> jsstring" where
  "trim s = rev (dropWhile is_ws (rev (dropWhile is_ws s)))"

text \<open>
  \<open>Number.prototype.toString\<close> on a non-negative integer (a clock reading in
  milliseconds, a list index): its decimal digits.
\<close>

definition digit :: "nat \<Rightarrow> 16 word" where
  "digit d = of_nat (48 + d)"

fun toString :: "nat \<Rightarrow> jsstring" where
  "toString n = (if n < 10 then [digit n] else toString (n div 10) @ [digit (n mod 10)])"

declare toString.simps [simp del]

text \<open>
  Truthiness of a value that is a string, \<open>undefined\<close> or \<open>null\<close>: only a non-empty
  string is truthy. \<open>x || d\<close> on such a value is \<open>or_else x d\<close>.
\<close>

fun truthy :: "jsstring option \<Rightarrow> bool" where
  "truthy None = False"
| "truthy (Some s) = (s \<noteq> [])"

fun or_else :: "jsstring option \<Rightarrow> jsstring \<Rightarrow> jsstring" where
  "or_else None d = d"
| "or_else (Some s) d = (if s \<noteq> [] then s else d)"

text \<open>
  A thrown error, as the handlers read it: \<open>err?.message\<close> and \<open>String(err)\<close>. A promise
  settles once, rejected with an error or fulfilled with a value.
\<close>

record js_error =
  err_message :: "jsstring option"
  err_string :: jsstring

datatype 'a settled = Rejected js_error | Fulfilled 'a

section \<open>Data of the Chat component\<close>

datatype role = User | Assistant

text \<open>\<open>interface Message { id; role; content; timestamp }\<close>\<close>

record message =
  msg_id :: jsstring
  msg_role :: role
  content :: jsstring
  timestamp :: jsstring

text \<open>\<open>interface ChatInteraction\<close> of \<open>lib/api.ts\<close>, the fields the component reads.\<close>

record interaction =
  question :: jsstring
  answer :: jsstring
  asked_at :: jsstring

text \<open>A call of \<open>toast({ title, description, variant })\<close>.\<close>

record toast =
  title :: jsstring
  description :: jsstring
  destructive :: bool

text \<open>A call of \<open>navigate(url, { replace })\<close>.\<close>

record navigation =
  url :: jsstring
  replace :: bool

text \<open>
  The component's \<open>useState\<close> cells that the logic below reads and writes. An object
  URL is a handle, numbered in the order of creation; the empty string of \<open>pdfUrl\<close> is
  \<open>None\<close>.
\<close>

type_synonym object_url = nat

record ui_state =
  messages :: "message list"
  input :: jsstring
  isLoadingHistory :: bool
  historyError :: jsstring
  pdfUrl :: "object_url option"
  isLoadingPdf :: bool

section \<open>Identifier resolution (Chat component with \<open>effectiveChatId\<close>)\<close>

text \<open>
  \<open>const pdfId = new URLSearchParams(location.search).get("pdf") || "";\<close>
  The lookup gives \<open>null\<close> (here \<open>None\<close>) when the query has no such parameter.
\<close>

definition pdfId_of :: "jsstring option \<Rightarrow> jsstring" where
  "pdfId_of q = or_else q []"

text \<open>
  \<^verbatim>\<open>
  const effectiveChatId = (() => {
    if (paramChatId && paramChatId.startsWith("chat_")) return paramChatId;
    if (pdfId) return `chat_${pdfId}`;
    return undefined;
  })();
  \<close>
\<close>

definition effectiveChatId :: "jsstring option \<Rightarrow> jsstring \<Rightarrow> jsstring option" where
  "effectiveChatId paramChatId pdfId =
     (if truthy paramChatId \<and> startsWith (the paramChatId) (lit ''chat_'') then paramChatId
      else if pdfId \<noteq> [] then Some (lit ''chat_'' @ pdfId)
      else None)"

text \<open>
  The resolver as a function of the two routing inputs, the route parameter and the
  \<open>pdf\<close> query parameter: the session key and the document key.
\<close>

definition resolve :: "jsstring option \<Rightarrow> jsstring option \<Rightarrow> jsstring option \<times> jsstring" where
  "resolve routeParam queryParam =
     (effectiveChatId routeParam (pdfId_of queryParam), pdfId_of queryParam)"

text \<open>
  The reference definition of the session key, following the three cases of the
  specification. A document key is available when the query input is present and not
  empty.
\<close>

fun documentKey_available :: "jsstring option \<Rightarrow> bool" where
  "documentKey_available None = False"
| "documentKey_available (Some d) = (d \<noteq> [])"

definition resolve_spec :: "jsstring option \<Rightarrow> jsstring option \<Rightarrow> jsstring option" where
  "resolve_spec routeParam queryParam =
     (case routeParam of
        Some r \<Rightarrow>
          if prefix (lit ''chat_'') r then Some r
          else if documentKey_available queryParam then Some (lit ''chat_'' @ the queryParam)
          else None
      | None \<Rightarrow>
          if documentKey_available queryParam then Some (lit ''chat_'' @ the queryParam)
          else None)"

section \<open>Sending a question (\<open>handleSend\<close>)\<close>

text \<open>
  The slice of the component and of its environment that \<open>handleSend\<close> touches: the
  component's states, the toasts shown, the navigations made and the \<open>askQuestion\<close>
  requests issued (chat id and question), in order.
\<close>

record send_state = ui_state +
  toasts :: "toast list"
  navigations :: "navigation list"
  requests :: "(jsstring \<times> jsstring) list"

text \<open>
  The backend as \<open>askQuestion\<close> sees it: for a chat id and a question the call throws
  (a response that is not ok, a network error), or returns the JSON object of the
  reply, of which the handler reads the field \<open>answer\<close>. The reply is taken to be an
  object, as the endpoint declares it, with a string for \<open>answer\<close> when it has the field
  (\<open>None\<close> when it has not).
\<close>

type_synonym backend = "jsstring \<Rightarrow> jsstring \<Rightarrow> jsstring option settled"

definition userMessage :: "nat \<Rightarrow> jsstring \<Rightarrow> message" where
  "userMessage now inp =
     \<lparr>msg_id = toString now, msg_role = User, content = inp, timestamp = lit ''Just now''\<rparr>"

definition assistantMessage :: "nat \<Rightarrow> jsstring \<Rightarrow> message" where
  "assistantMessage n text =
     \<lparr>msg_id = toString n, msg_role = Assistant, content = text, timestamp = lit ''Just now''\<rparr>"

definition failureMessage :: "nat \<Rightarrow> message" where
  "failureMessage n = assistantMessage n (lit ''Failed to get answer from server.'')"

definition missingChatIdToast :: toast where
  "missingChatIdToast =
     \<lparr>title = lit ''Missing chat id'',
      description = lit ''Cannot send question because chat id is missing.'',
      destructive = True\<rparr>"

definition serverErrorToast :: "js_error \<Rightarrow> toast" where
  "serverErrorToast err =
     \<lparr>title = lit ''Server error'',
      description = or_else (err_message err) (lit ''Failed to get answer from server''),
      destructive = True\<rparr>"

text \<open>\<open>const fallbackChat = pdfId ? `chat_${pdfId}` : undefined;\<close>\<close>

definition fallbackChat :: "jsstring \<Rightarrow> jsstring option" where
  "fallbackChat pdfId = (if pdfId \<noteq> [] then Some (lit ''chat_'' @ pdfId) else None)"

text \<open>
  \<open>navigate(`/chat/${fallbackChat}?pdf=${pdfId}`, { replace: true })\<close>: the URL as the
  template builds it. The router that reads it back is not part of the component; on a
  key that needs no escaping in a URL it gives the route parameter \<open>fallbackChat\<close> and
  the query parameter \<open>pdfId\<close>.
\<close>

definition migration :: "jsstring \<Rightarrow> jsstring \<Rightarrow> navigation" where
  "migration fb pdfId = \<lparr>url = lit ''/chat/'' @ fb @ lit ''?pdf='' @ pdfId, replace = True\<rparr>"

text \<open>
  The synchronous part of \<open>handleSend\<close>, at clock reading \<open>now\<close>: the guard on the
  trimmed input, the user message appended, the input cleared. It returns the user
  message that the asynchronous part goes on with, if any.
  \<^verbatim>\<open>
    if (!input.trim()) return;
    const userMessage: Message = { id: Date.now().toString(), role: "user",
                                   content: input, timestamp: "Just now" };
    setMessages((m) => [...m, userMessage]);
    setInput("");
  \<close>
\<close>

definition handleSend_sync :: "nat \<Rightarrow> send_state \<Rightarrow> send_state \<times> message option" where
  "handleSend_sync now s =
     (if trim (input s) = [] then (s, None)
      else (s\<lparr>messages := messages s @ [userMessage now (input s)], input := []\<rparr>,
            Some (userMessage now (input s))))"

text \<open>
  The asynchronous part of \<open>handleSend\<close>, run to its end against the backend, with the
  \<open>effectiveChatId\<close> and \<open>pdfId\<close> of the render that made the handler. Every path reads
  the clock once more, when it builds the assistant message: \<open>now\<close> is that reading.
  The module \<open>@/lib/api\<close> is imported statically by the file, so that the dynamic
  \<open>import\<close> of it is taken to succeed.
\<close>

definition ask_flow ::
  "backend \<Rightarrow> jsstring option \<Rightarrow> jsstring \<Rightarrow> nat \<Rightarrow> message \<Rightarrow> send_state \<Rightarrow> send_state" where
  "ask_flow askQuestion chatId pdfId now um s =
     (if \<not> truthy chatId then s\<lparr>toasts := toasts s @ [missingChatIdToast]\<rparr>
      else
        case askQuestion (the chatId) (content um) of
          Fulfilled res \<Rightarrow>
            s\<lparr>requests := requests s @ [(the chatId, content um)],
              messages := messages s
                @ [assistantMessage (now + 1) (or_else res (lit ''(no answer)''))]\<rparr>
        | Rejected err \<Rightarrow>
            if truthy (fallbackChat pdfId) \<and> fallbackChat pdfId \<noteq> chatId then
              case askQuestion (the (fallbackChat pdfId)) (content um) of
                Fulfilled res2 \<Rightarrow>
                  s\<lparr>requests := requests s
                      @ [(the chatId, content um), (the (fallbackChat pdfId), content um)],
                    messages := messages s
                      @ [assistantMessage (now + 2) (or_else res2 (lit ''(no answer)''))],
                    navigations := navigations s
                      @ [migration (the (fallbackChat pdfId)) pdfId]\<rparr>
              | Rejected err2 \<Rightarrow>
                  s\<lparr>requests := requests s
                      @ [(the chatId, content um), (the (fallbackChat pdfId), content um)],
                    toasts := toasts s @ [serverErrorToast err2],
                    messages := messages s @ [failureMessage (now + 3)]\<rparr>
            else
              s\<lparr>requests := requests s @ [(the chatId, content um)],
                toasts := toasts s @ [serverErrorToast err],
                messages := messages s @ [failureMessage (now + 4)]\<rparr>)"

definition handleSend ::
  "backend \<Rightarrow> jsstring option \<Rightarrow> jsstring \<Rightarrow> nat \<Rightarrow> nat \<Rightarrow> send_state \<Rightarrow> send_state" where
  "handleSend askQuestion chatId pdfId now0 now1 s =
     (case handleSend_sync now0 s of
        (s', None) \<Rightarrow> s'
      | (s', Some um) \<Rightarrow> ask_flow askQuestion chatId pdfId now1 um s')"

text \<open>
  \<open>handleSend\<close> of \<open>src/pages/Chat.tsx\<close>, the variant keyed by the route parameter
  \<open>pdfId\<close> alone: the same synchronous part, then one request and no fallback.
  \<^verbatim>\<open>
    const chatId = pdfId || `chat_${Date.now()}`;
    const res: any = await askQuestion(chatId, userMessage.content);
  \<close>
  \<open>nowc\<close> is the clock reading inside \<open>chatId\<close>.
\<close>

definition ask_flow_legacy ::
  "backend \<Rightarrow> jsstring \<Rightarrow> nat \<Rightarrow> nat \<Rightarrow> message \<Rightarrow> send_state \<Rightarrow> send_state" where
  "ask_flow_legacy askQuestion pdfId nowc now um s =
     (case askQuestion (or_else (Some pdfId) (lit ''chat_'' @ toString nowc)) (content um) of
        Fulfilled res \<Rightarrow>
          s\<lparr>requests := requests s
              @ [(or_else (Some pdfId) (lit ''chat_'' @ toString nowc), content um)],
            messages := messages s
              @ [assistantMessage (now + 1) (or_else res (lit ''(no answer)''))]\<rparr>
      | Rejected err \<Rightarrow>
          s\<lparr>requests := requests s
              @ [(or_else (Some pdfId) (lit ''chat_'' @ toString nowc), content um)],
            messages := messages s @ [failureMessage (now + 1)]\<rparr>)"

definition handleSend_legacy ::
  "backend \<Rightarrow> jsstring \<Rightarrow> nat \<Rightarrow> nat \<Rightarrow> nat \<Rightarrow> send_state \<Rightarrow> send_state" where
  "handleSend_legacy askQuestion pdfId now0 nowc now1 s =
     (case handleSend_sync now0 s of
        (s', None) \<Rightarrow> s'
      | (s', Some um) \<Rightarrow> ask_flow_legacy askQuestion pdfId nowc now1 um s')"

section \<open>The route that a navigation leads to\<close>







section \<open>Loading the history (\<open>loadHistory\<close> effect)\<close>

text \<open>
  The three placeholder messages of \<open>loadHistory\<close>: no chat id, a history without
  interactions, a failed load.
\<close>

definition welcomeMessage :: "jsstring \<Rightarrow> message" where
  "welcomeMessage text =
     \<lparr>msg_id = lit ''welcome'', msg_role = Assistant, content = text,
      timestamp = lit ''Just now''\<rparr>"

definition noChatText :: jsstring where
  "noChatText = lit (''Hello! Upload a PDF or open a chat to start. ''
     @ ''Once you open a chat, ask me anything about the document.'')"

definition noInteractionsText :: jsstring where
  "noInteractionsText = lit ''No previous interactions found. Ask a question to get started!''"

definition readyText :: jsstring where
  "readyText = lit (''Hello! I'' @ [CHR 0x27]
     @ ''m ready to help you understand this PDF. Ask me any questions!'')"

text \<open>
  \<^verbatim>\<open>
  data.interactions.forEach((it, idx) => {
    historyMessages.push({ id: `${idx}-q`, role: "user", content: it.question, timestamp: it.asked_at });
    historyMessages.push({ id: `${idx}-a`, role: "assistant", content: it.answer, timestamp: it.asked_at });
  });
  \<close>
\<close>

fun historyMessages :: "nat \<Rightarrow> interaction list \<Rightarrow> message list" where
  "historyMessages idx [] = []"
| "historyMessages idx (it # its) =
     \<lparr>msg_id = toString idx @ lit ''-q'', msg_role = User, content = question it,
      timestamp = asked_at it\<rparr>
     # \<lparr>msg_id = toString idx @ lit ''-a'', msg_role = Assistant, content = answer it,
        timestamp = asked_at it\<rparr>
     # historyMessages (Suc idx) its"

text \<open>
  What a fulfilled and a rejected \<open>getChatHistory\<close> put into \<open>messages\<close>:
  \<open>historyMessages.length ? historyMessages : [ ... ]\<close> and the placeholder of the
  \<open>catch\<close> block.
\<close>

definition history_loaded :: "interaction list \<Rightarrow> message list" where
  "history_loaded its =
     (if historyMessages 0 its \<noteq> [] then historyMessages 0 its
      else [welcomeMessage noInteractionsText])"

definition history_failed :: "message list" where
  "history_failed = [welcomeMessage readyText]"

text \<open>
  One run of the effect is a closure over the key it was started for and over its own
  \<open>isMounted\<close> variable, which only the cleanup of that run writes. \<open>h_awaiting\<close> says
  that the promise of \<open>getChatHistory\<close> of that run has not settled yet.
\<close>

record history_effect =
  h_key :: "jsstring option"
  h_isMounted :: bool
  h_awaiting :: bool

record history_state = ui_state +
  heffects :: "history_effect list"
  hcurrent :: "nat option"
  hgone :: bool

text \<open>
  What happens to the component, as far as the history is concerned: a render commits
  with a value of \<open>effectiveChatId\<close> (the first one mounts the component), the request of
  the effect run number \<open>i\<close> settles, another handler appends a message, the component
  unmounts.
\<close>

datatype history_event =
  Render "jsstring option"
| Settled nat "interaction list settled"
| Append message
| Unmount

text \<open>The cleanup \<open>() => { isMounted = false; }\<close> of the run that is current.\<close>

definition history_cleanup :: "history_state \<Rightarrow> history_state" where
  "history_cleanup s =
     (case hcurrent s of
        None \<Rightarrow> s
      | Some i \<Rightarrow> s\<lparr>heffects := (heffects s)[i := (heffects s ! i)\<lparr>h_isMounted := False\<rparr>]\<rparr>)"

text \<open>The body of the effect up to its \<open>await\<close>, as a new run.\<close>

definition loadHistory_start :: "jsstring option \<Rightarrow> history_state \<Rightarrow> history_state" where
  "loadHistory_start k s =
     (if \<not> truthy k then
        s\<lparr>messages := [welcomeMessage noChatText],
          heffects := heffects s @ [\<lparr>h_key = k, h_isMounted = True, h_awaiting = False\<rparr>],
          hcurrent := Some (length (heffects s))\<rparr>
      else
        s\<lparr>isLoadingHistory := True, historyError := [],
          heffects := heffects s @ [\<lparr>h_key = k, h_isMounted = True, h_awaiting = True\<rparr>],
          hcurrent := Some (length (heffects s))\<rparr>)"

text \<open>
  React runs the effect on mount and whenever its dependency \<open>effectiveChatId\<close> has
  changed, after the cleanup of the previous run. The commit of a render and the
  effects it triggers are one step here: a session is active from the moment the
  effect has run for it.
\<close>

definition history_render :: "jsstring option \<Rightarrow> history_state \<Rightarrow> history_state" where
  "history_render k s =
     (if hgone s then s
      else case hcurrent s of
        None \<Rightarrow> loadHistory_start k s
      | Some i \<Rightarrow>
          if h_key (heffects s ! i) = k then s
          else loadHistory_start k (history_cleanup s))"

text \<open>The rest of \<open>loadHistory\<close> after the \<open>await\<close>, for the run \<open>i\<close>.\<close>

definition loadHistory_settled ::
  "nat \<Rightarrow> interaction list settled \<Rightarrow> history_state \<Rightarrow> history_state" where
  "loadHistory_settled i r s =
     (if i < length (heffects s) \<and> h_awaiting (heffects s ! i) then
        if \<not> h_isMounted (heffects s ! i) then
          s\<lparr>heffects := (heffects s)[i := (heffects s ! i)\<lparr>h_awaiting := False\<rparr>]\<rparr>
        else
          case r of
            Fulfilled its \<Rightarrow>
              s\<lparr>messages := history_loaded its, isLoadingHistory := False,
                heffects := (heffects s)[i := (heffects s ! i)\<lparr>h_awaiting := False\<rparr>]\<rparr>
          | Rejected err \<Rightarrow>
              s\<lparr>historyError := or_else (err_message err) (lit ''Failed to load chat history''),
                messages := history_failed, isLoadingHistory := False,
                heffects := (heffects s)[i := (heffects s ! i)\<lparr>h_awaiting := False\<rparr>]\<rparr>
      else s)"

definition history_unmount :: "history_state \<Rightarrow> history_state" where
  "history_unmount s = (history_cleanup s)\<lparr>hcurrent := None, hgone := True\<rparr>"

fun history_step :: "history_state \<Rightarrow> history_event \<Rightarrow> history_state" where
  "history_step s (Render k) = history_render k s"
| "history_step s (Settled i r) = loadHistory_settled i r s"
| "history_step s (Append m) = (if hgone s then s else s\<lparr>messages := messages s @ [m]\<rparr>)"
| "history_step s Unmount = history_unmount s"

definition history_init :: history_state where
  "history_init =
     \<lparr>messages = [], input = [], isLoadingHistory = False, historyError = [],
      pdfUrl = None, isLoadingPdf = False, heffects = [], hcurrent = None, hgone = False\<rparr>"

definition history_run :: "history_event list \<Rightarrow> history_state" where
  "history_run es = foldl history_step history_init es"

text \<open>
  \<open>loadHistory\<close> of \<open>src/pages/Chat.tsx\<close> after its \<open>await\<close>: \<open>setMessages(historyMessages)\<close>
  on success, whatever the length; its own placeholder on failure.
\<close>

definition history_loaded_legacy :: "interaction list \<Rightarrow> message list" where
  "history_loaded_legacy its = historyMessages 0 its"

definition readyText_legacy :: jsstring where
  "readyText_legacy = lit (''Hello! I'' @ [CHR 0x27]
     @ ''m ready to help you understand this PDF. Ask me any questions about the content, ''
     @ ''and I'' @ [CHR 0x27] @ ''ll provide detailed explanations.'')"

definition history_failed_legacy :: "message list" where
  "history_failed_legacy = [welcomeMessage readyText_legacy]"

definition loadHistory_settled_legacy ::
  "nat \<Rightarrow> interaction list settled \<Rightarrow> history_state \<Rightarrow> history_state" where
  "loadHistory_settled_legacy i r s =
     (if i < length (heffects s) \<and> h_awaiting (heffects s ! i) then
        if \<not> h_isMounted (heffects s ! i) then
          s\<lparr>heffects := (heffects s)[i := (heffects s ! i)\<lparr>h_awaiting := False\<rparr>]\<rparr>
        else
          case r of
            Fulfilled its \<Rightarrow>
              s\<lparr>messages := history_loaded_legacy its, isLoadingHistory := False,
                heffects := (heffects s)[i := (heffects s ! i)\<lparr>h_awaiting := False\<rparr>]\<rparr>
          | Rejected err \<Rightarrow>
              s\<lparr>historyError := or_else (err_message err) (lit ''Failed to load chat history''),
                messages := history_failed_legacy, isLoadingHistory := False,
                heffects := (heffects s)[i := (heffects s ! i)\<lparr>h_awaiting := False\<rparr>]\<rparr>
      else s)"

text \<open>
  The body of that effect up to its \<open>await\<close>, keyed by the route parameter \<open>pdfId\<close>:
  \<open>if (!pdfId) return;\<close> and no placeholder.
\<close>

definition loadHistory_start_legacy :: "jsstring \<Rightarrow> history_state \<Rightarrow> history_state" where
  "loadHistory_start_legacy pdfId s =
     (if pdfId = [] then
        s\<lparr>heffects := heffects s
            @ [\<lparr>h_key = Some pdfId, h_isMounted = True, h_awaiting = False\<rparr>],
          hcurrent := Some (length (heffects s))\<rparr>
      else
        s\<lparr>isLoadingHistory := True, historyError := [],
          heffects := heffects s
            @ [\<lparr>h_key = Some pdfId, h_isMounted = True, h_awaiting = True\<rparr>],
          hcurrent := Some (length (heffects s))\<rparr>)"

section \<open>Loading the document (\<open>loadPdf\<close> effect)\<close>

text \<open>
  The payload of \<open>getPdf\<close> is a blob of bytes. \<open>URL.createObjectURL\<close> gives a new
  handle each time, which stays live until \<open>URL.revokeObjectURL\<close> is called on it.
\<close>

type_synonym blob = "8 word list"

text \<open>
  One run of the effect is a closure over its own \<open>isMounted\<close> and over the URL that
  its cleanup reads, \<open>p_url\<close>. In the component with \<open>effectiveChatId\<close> that is the
  local variable \<open>currentUrl\<close>, empty at first and assigned when the run creates its
  URL. In \<open>src/pages/Chat.tsx\<close> it is the state \<open>pdfUrl\<close> as it was in the render that
  made the run.
\<close>

record pdf_effect =
  p_key :: jsstring
  p_isMounted :: bool
  p_awaiting :: bool
  p_url :: "object_url option"

record pdf_state = ui_state +
  peffects :: "pdf_effect list"
  pcurrent :: "nat option"
  pgone :: bool
  liveUrls :: "object_url list"
  created :: nat
  pdf_toasts :: "toast list"

datatype pdf_event =
  PdfRender jsstring
| PdfSettled nat "blob settled"
| PdfUnmount

definition revokeObjectURL :: "object_url \<Rightarrow> pdf_state \<Rightarrow> pdf_state" where
  "revokeObjectURL u s = s\<lparr>liveUrls := removeAll u (liveUrls s)\<rparr>"

text \<open>
  \<^verbatim>\<open>
    return () => {
      isMounted = false;
      if (currentUrl) URL.revokeObjectURL(currentUrl);
    };
  \<close>
  and, in \<open>src/pages/Chat.tsx\<close>, \<open>if (pdfUrl) URL.revokeObjectURL(pdfUrl);\<close>: in both the
  cleanup of the current run revokes the URL of its closure, if it has one.
\<close>

definition pdf_cleanup :: "pdf_state \<Rightarrow> pdf_state" where
  "pdf_cleanup s =
     (case pcurrent s of
        None \<Rightarrow> s
      | Some i \<Rightarrow>
          (case p_url (peffects s ! i) of
             None \<Rightarrow> s\<lparr>peffects := (peffects s)[i := (peffects s ! i)\<lparr>p_isMounted := False\<rparr>]\<rparr>
           | Some u \<Rightarrow>
               revokeObjectURL u
                 (s\<lparr>peffects := (peffects s)[i := (peffects s ! i)\<lparr>p_isMounted := False\<rparr>]\<rparr>)))"

text \<open>
  The body of the effect up to its \<open>await\<close>, as a new run whose closure starts with
  the URL \<open>u0\<close>: \<open>let currentUrl = ""\<close> in the one component, the state \<open>pdfUrl\<close> of the
  render in the other. Both return at once on an empty \<open>pdfId\<close>.
\<close>

definition loadPdf_start_with ::
  "object_url option \<Rightarrow> jsstring \<Rightarrow> pdf_state \<Rightarrow> pdf_state" where
  "loadPdf_start_with u0 pdfId s =
     (if pdfId = [] then
        s\<lparr>peffects := peffects s
            @ [\<lparr>p_key = pdfId, p_isMounted = True, p_awaiting = False, p_url = u0\<rparr>],
          pcurrent := Some (length (peffects s))\<rparr>
      else
        s\<lparr>isLoadingPdf := True,
          peffects := peffects s
            @ [\<lparr>p_key = pdfId, p_isMounted = True, p_awaiting = True, p_url = u0\<rparr>],
          pcurrent := Some (length (peffects s))\<rparr>)"

definition loadPdf_start :: "jsstring \<Rightarrow> pdf_state \<Rightarrow> pdf_state" where
  "loadPdf_start pdfId s = loadPdf_start_with None pdfId s"

definition loadPdf_start_legacy :: "jsstring \<Rightarrow> pdf_state \<Rightarrow> pdf_state" where
  "loadPdf_start_legacy pdfId s = loadPdf_start_with (pdfUrl s) pdfId s"

text \<open>
  The rest of \<open>loadPdf\<close> after the \<open>await\<close>, for the run \<open>i\<close>, in the component with
  \<open>effectiveChatId\<close>:
  \<^verbatim>\<open>
        const blob = await getPdf(pdfId);
        if (!isMounted) return;
        const url = URL.createObjectURL(blob);
        currentUrl = url;
        setPdfUrl(url);
      } catch (err: any) {
        toast({ title: "PDF load failed", description: err?.message || String(err), ... });
      } finally {
        if (isMounted) setIsLoadingPdf(false);
      }
  \<close>
\<close>

definition pdfLoadFailedToast :: "js_error \<Rightarrow> toast" where
  "pdfLoadFailedToast err =
     \<lparr>title = lit ''PDF load failed'',
      description = or_else (err_message err) (err_string err),
      destructive = True\<rparr>"

definition loadPdf_settled :: "nat \<Rightarrow> blob settled \<Rightarrow> pdf_state \<Rightarrow> pdf_state" where
  "loadPdf_settled i r s =
     (if i < length (peffects s) \<and> p_awaiting (peffects s ! i) then
        case r of
          Fulfilled b \<Rightarrow>
            if \<not> p_isMounted (peffects s ! i) then
              s\<lparr>peffects := (peffects s)[i := (peffects s ! i)\<lparr>p_awaiting := False\<rparr>]\<rparr>
            else
              s\<lparr>liveUrls := liveUrls s @ [created s], created := Suc (created s),
                peffects := (peffects s)
                  [i := (peffects s ! i)\<lparr>p_awaiting := False, p_url := Some (created s)\<rparr>],
                pdfUrl := Some (created s), isLoadingPdf := False\<rparr>
        | Rejected err \<Rightarrow>
            s\<lparr>pdf_toasts := pdf_toasts s @ [pdfLoadFailedToast err],
              peffects := (peffects s)[i := (peffects s ! i)\<lparr>p_awaiting := False\<rparr>],
              isLoadingPdf := (if p_isMounted (peffects s ! i) then False else isLoadingPdf s)\<rparr>
      else s)"

text \<open>
  The same in \<open>src/pages/Chat.tsx\<close>: the URL goes into the state only, and a failure is
  logged to the console.
  \<^verbatim>\<open>
        const blob = await getPdf(pdfId);
        if (!isMounted) return;
        const url = URL.createObjectURL(blob);
        setPdfUrl(url);
      } catch (err: any) {
        if (!isMounted) return;
        console.error("Failed to load PDF:", err);
      } finally {
        if (isMounted) setIsLoadingPdf(false);
      }
  \<close>
\<close>

definition loadPdf_settled_legacy :: "nat \<Rightarrow> blob settled \<Rightarrow> pdf_state \<Rightarrow> pdf_state" where
  "loadPdf_settled_legacy i r s =
     (if i < length (peffects s) \<and> p_awaiting (peffects s ! i) then
        case r of
          Fulfilled b \<Rightarrow>
            if \<not> p_isMounted (peffects s ! i) then
              s\<lparr>peffects := (peffects s)[i := (peffects s ! i)\<lparr>p_awaiting := False\<rparr>]\<rparr>
            else
              s\<lparr>liveUrls := liveUrls s @ [created s], created := Suc (created s),
                peffects := (peffects s)[i := (peffects s ! i)\<lparr>p_awaiting := False\<rparr>],
                pdfUrl := Some (created s), isLoadingPdf := False\<rparr>
        | Rejected err \<Rightarrow>
            s\<lparr>peffects := (peffects s)[i := (peffects s ! i)\<lparr>p_awaiting := False\<rparr>],
              isLoadingPdf := (if p_isMounted (peffects s ! i) then False else isLoadingPdf s)\<rparr>
      else s)"

text \<open>
  React runs the effect on mount and whenever its dependency \<open>pdfId\<close> has changed, after
  the cleanup of the previous run (\<open>toast\<close>, the other dependency of the one component,
  is the same function in every render).
\<close>

definition pdf_render :: "jsstring \<Rightarrow> pdf_state \<Rightarrow> pdf_state" where
  "pdf_render pdfId s =
     (if pgone s then s
      else case pcurrent s of
        None \<Rightarrow> loadPdf_start pdfId s
      | Some i \<Rightarrow>
          if p_key (peffects s ! i) = pdfId then s
          else loadPdf_start pdfId (pdf_cleanup s))"

definition pdf_render_legacy :: "jsstring \<Rightarrow> pdf_state \<Rightarrow> pdf_state" where
  "pdf_render_legacy pdfId s =
     (if pgone s then s
      else case pcurrent s of
        None \<Rightarrow> loadPdf_start_legacy pdfId s
      | Some i \<Rightarrow>
          if p_key (peffects s ! i) = pdfId then s
          else loadPdf_start_legacy pdfId (pdf_cleanup s))"

definition pdf_unmount :: "pdf_state \<Rightarrow> pdf_state" where
  "pdf_unmount s = (pdf_cleanup s)\<lparr>pcurrent := None, pgone := True\<rparr>"

fun pdf_step :: "pdf_state \<Rightarrow> pdf_event \<Rightarrow> pdf_state" where
  "pdf_step s (PdfRender pdfId) = pdf_render pdfId s"
| "pdf_step s (PdfSettled i r) = loadPdf_settled i r s"
| "pdf_step s PdfUnmount = pdf_unmount s"

fun pdf_step_legacy :: "pdf_state \<Rightarrow> pdf_event \<Rightarrow> pdf_state" where
  "pdf_step_legacy s (PdfRender pdfId) = pdf_render_legacy pdfId s"
| "pdf_step_legacy s (PdfSettled i r) = loadPdf_settled_legacy i r s"
| "pdf_step_legacy s PdfUnmount = pdf_unmount s"

definition pdf_init :: pdf_state where
  "pdf_init =
     \<lparr>messages = [], input = [], isLoadingHistory = False, historyError = [],
      pdfUrl = None, isLoadingPdf = False, peffects = [], pcurrent = None, pgone = False,
      liveUrls = [], created = 0, pdf_toasts = []\<rparr>"

definition pdf_run :: "pdf_event list \<Rightarrow> pdf_state" where
  "pdf_run es = foldl pdf_step pdf_init es"

definition pdf_run_legacy :: "pdf_event list \<Rightarrow> pdf_state" where
  "pdf_run_legacy es = foldl pdf_step_legacy pdf_init es"

section \<open>Concrete inputs and predicates of the properties\<close>

text \<open>A component that has just mounted, with some text in its input field.\<close>

definition blank_state :: "jsstring \<Rightarrow> send_state" where
  "blank_state inp =
     \<lparr>messages = [], input = inp, isLoadingHistory = False, historyError = [],
      pdfUrl = None, isLoadingPdf = False, toasts = [], navigations = [], requests = []\<rparr>"

text \<open>
  Two backends: one that rejects every question with the error of \<open>askQuestion\<close>, one
  that answers for a single chat id only.
\<close>

definition ask_failed :: js_error where
  "ask_failed = \<lparr>err_message = Some (lit ''Ask failed''), err_string = lit ''Error: Ask failed''\<rparr>"

definition backend_down :: backend where
  "backend_down c q = Rejected ask_failed"

definition backend_knows :: "jsstring \<Rightarrow> backend" where
  "backend_knows c0 c q = (if c = c0 then Fulfilled (Some (lit ''42'')) else Rejected ask_failed)"

definition an_interaction :: interaction where
  "an_interaction = \<lparr>question = lit ''q'', answer = lit ''a'', asked_at = lit ''t''\<rparr>"




text \<open>
  The invariant of the history effect: only the current run can have \<open>isMounted\<close> set,
  and there is no current run once the component is gone. A run is stale when its
  \<open>isMounted\<close> has been cleared.
\<close>

definition history_inv :: "history_state \<Rightarrow> bool" where
  "history_inv s =
     ((\<forall>i < length (heffects s). h_isMounted (heffects s ! i) \<longrightarrow> hcurrent s = Some i)
      \<and> (\<forall>i. hcurrent s = Some i \<longrightarrow> i < length (heffects s) \<and> \<not> hgone s))"

definition stale :: "nat \<Rightarrow> history_state \<Rightarrow> bool" where
  "stale i s = (i < length (heffects s) \<and> \<not> h_isMounted (heffects s ! i))"

text \<open>
  The invariant of the document effect with \<open>currentUrl\<close>: a run has \<open>isMounted\<close> set
  exactly when it is the current one, a run that still awaits its blob has made no
  URL, and the live URLs are the URL of the current run, if it has made one. After a
  cleanup the component is idle: no run is mounted and no URL is live.
\<close>

definition pdf_inv :: "pdf_state \<Rightarrow> bool" where
  "pdf_inv s =
     ((\<forall>i < length (peffects s). p_isMounted (peffects s ! i) = (pcurrent s = Some i))
      \<and> (\<forall>i < length (peffects s). p_awaiting (peffects s ! i) \<longrightarrow> p_url (peffects s ! i) = None)
      \<and> (case pcurrent s of
            None \<Rightarrow> liveUrls s = []
          | Some i \<Rightarrow>
              i < length (peffects s) \<and> \<not> pgone s
              \<and> liveUrls s = (case p_url (peffects s ! i) of None \<Rightarrow> [] | Some u \<Rightarrow> [u])))"

definition pdf_idle :: "pdf_state \<Rightarrow> bool" where
  "pdf_idle s =
     ((\<forall>i < length (peffects s). \<not> p_isMounted (peffects s ! i))
      \<and> (\<forall>i < length (peffects s). p_awaiting (peffects s ! i) \<longrightarrow> p_url (peffects s ! i) = None)
      \<and> liveUrls s = [])"

definition a_blob :: blob where
  "a_blob = [0x25, 0x50, 0x44, 0x46]"

section \<open>Strings and numbers\<close>

lemma startsWith_prefix: "startsWith s p = prefix p s"
  by (auto simp: startsWith_def prefix_def) (metis append_take_drop_id)

lemma lit_chat_nonempty: "lit ''chat_'' \<noteq> []"
  by (simp add: lit_def)

lemma dropWhile_all: "(\<forall>x\<in>set (dropWhile P s). P x) \<longleftrightarrow> (\<forall>c\<in>set s. P c)"
  by (induction s) auto

lemma trim_empty_iff: "trim s = [] \<longleftrightarrow> (\<forall>c\<in>set s. is_ws c)"
  by (simp add: trim_def dropWhile_eq_Nil_conv dropWhile_all)

lemma unat_digit: "d < 10 \<Longrightarrow> unat (digit d) = 48 + d"
  unfolding digit_def by (subst unat_of_nat) simp

lemma digit_inj:
  assumes "a < 10" "b < 10" "digit a = digit b"
  shows "a = b"
proof -
  from assms(3) have "unat (digit a) = unat (digit b)"
    by (rule arg_cong)
  with assms(1,2) have "48 + a = 48 + b"
    by (simp only: unat_digit)
  then show ?thesis by simp
qed

lemma toString_nonempty: "toString n \<noteq> []"
  by (subst toString.simps) simp

lemma toString_inj: "toString m = toString n \<Longrightarrow> m = n"
proof (induction m arbitrary: n rule: toString.induct)
  case (1 m)
  show ?case
  proof (cases "m < 10")
    case small: True
    show ?thesis
    proof (cases "n < 10")
      case True
      with small "1.prems" show ?thesis
        by (simp add: toString.simps [of m] toString.simps [of n] digit_inj)
    next
      case False
      with small "1.prems" show ?thesis
        using toString_nonempty [of "n div 10"]
        by (simp add: toString.simps [of m] toString.simps [of n])
    qed
  next
    case big: False
    show ?thesis
    proof (cases "n < 10")
      case True
      with big "1.prems" show ?thesis
        using toString_nonempty [of "m div 10"]
        by (simp add: toString.simps [of m] toString.simps [of n])
    next
      case False
      with big "1.prems" have eq: "toString (m div 10) = toString (n div 10)"
        and d: "digit (m mod 10) = digit (n mod 10)"
        by (simp_all add: toString.simps [of m] toString.simps [of n])
      from "1.IH" [OF big eq] have "m div 10 = n div 10" .
      moreover from d have "m mod 10 = n mod 10"
        by (intro digit_inj) simp_all
      ultimately show ?thesis
        by (metis div_mult_mod_eq)
    qed
  qed
qed

section \<open>The resolver\<close>

text \<open>
  C1. The session key computed by the resolver is the one of the three-case reference
  definition: a route parameter that starts with \<open>chat_\<close> is taken verbatim, whatever the
  query; otherwise a document key available from the query gives \<open>chat_\<close> followed by
  that key; otherwise there is no session key. The result is a function of the two
  inputs alone, and the document key is the query value (empty when there is none).
\<close>

theorem resolve_matches_reference:
  "fst (resolve routeParam queryParam) = resolve_spec routeParam queryParam
   \<and> snd (resolve routeParam queryParam) = (case queryParam of None \<Rightarrow> [] | Some d \<Rightarrow> d)
   \<and> fst (resolve (Some (lit ''chat_'' @ k)) queryParam) = Some (lit ''chat_'' @ k)"
  by (cases routeParam; cases queryParam)
     (auto simp: resolve_def resolve_spec_def effectiveChatId_def pdfId_of_def
        startsWith_prefix lit_chat_nonempty)

text \<open>
  C3, as the code has it. A route parameter that does not start with \<open>chat_\<close> is never
  the session key: the session key is \<open>chat_\<close> followed by the document key when the query
  has one, and undefined otherwise. The counterexample is the route parameter \<open>abc\<close>,
  with the query \<open>doc1\<close> and with no query.
\<close>

theorem foreign_route_key_replaced:
  assumes "\<not> startsWith r (lit ''chat_'')"
  shows "fst (resolve (Some r) queryParam)
           = (if documentKey_available queryParam then Some (lit ''chat_'' @ the queryParam)
              else None)
         \<and> fst (resolve (Some r) queryParam) \<noteq> Some r"
  using assms
  by (cases queryParam)
     (auto simp: resolve_def effectiveChatId_def pdfId_of_def startsWith_prefix)

theorem foreign_route_key_replaced_witness:
  "fst (resolve (Some (lit ''abc'')) (Some (lit ''doc1''))) = Some (lit ''chat_doc1'')
   \<and> fst (resolve (Some (lit ''abc'')) (Some (lit ''doc1''))) \<noteq> Some (lit ''abc'')"
  using foreign_route_key_replaced [of "lit ''abc''" "Some (lit ''doc1'')"]
  by (simp add: startsWith_def lit_def)

theorem foreign_route_key_counterexample:
  "\<not> startsWith (lit ''abc'') (lit ''chat_'')
   \<and> fst (resolve (Some (lit ''abc'')) (Some (lit ''doc1''))) = Some (lit ''chat_doc1'')
   \<and> fst (resolve (Some (lit ''abc'')) None) = None"
  by (simp add: resolve_def effectiveChatId_def pdfId_of_def startsWith_def lit_def)

section \<open>Sending a question\<close>

text \<open>
  C2, as the code has it. For an input whose trimmed form is not empty, the synchronous
  part of \<open>handleSend\<close> appends the user message at the end of the log and clears the
  input, before any request is issued; the message has the role of the user, the input
  as content and the decimal clock reading as id, which is the id of another user
  message only if that one was made at the same clock reading. A message has no
  delivery state. The counterexample: the input of one space is not empty and nothing
  is appended for it, and two messages made at the clock reading 5 share their id.
\<close>

theorem user_message_appended_at_once:
  assumes "trim (input s) \<noteq> []"
  shows "handleSend_sync now s
           = (s\<lparr>messages := messages s
                  @ [\<lparr>msg_id = toString now, msg_role = User, content = input s,
                      timestamp = lit ''Just now''\<rparr>],
                input := []\<rparr>,
              Some \<lparr>msg_id = toString now, msg_role = User, content = input s,
                    timestamp = lit ''Just now''\<rparr>)
         \<and> requests (fst (handleSend_sync now s)) = requests s
         \<and> (msg_id (userMessage now (input s)) = msg_id (userMessage now' inp')) = (now = now')"
proof -
  have ids: "(msg_id (userMessage now (input s)) = msg_id (userMessage now' inp')) = (now = now')"
    by (auto simp: userMessage_def dest: toString_inj)
  show ?thesis
    using assms ids by (simp add: handleSend_sync_def userMessage_def)
qed

theorem user_message_appended_at_once_witness:
  "fst (handleSend_sync 5 (blank_state (lit ''hi'')))
     = (blank_state (lit ''hi''))
         \<lparr>messages := [\<lparr>msg_id = lit ''5'', msg_role = User, content = lit ''hi'',
                         timestamp = lit ''Just now''\<rparr>],
          input := []\<rparr>"
  using user_message_appended_at_once [of "blank_state (lit ''hi'')" 5]
  by (simp add: blank_state_def trim_def is_ws_def lit_def toString.simps [of 5] digit_def)

theorem user_message_counterexample:
  "input (blank_state (lit '' '')) \<noteq> []
   \<and> handleSend_sync 5 (blank_state (lit '' '')) = (blank_state (lit '' ''), None)
   \<and> msg_id (userMessage 5 (lit ''a'')) = msg_id (userMessage 5 (lit ''b''))
   \<and> userMessage 5 (lit ''a'') \<noteq> userMessage 5 (lit ''b'')"
  by (simp add: handleSend_sync_def blank_state_def trim_def is_ws_def lit_def userMessage_def)

text \<open>
  C10. When the input is empty or has only whitespace, \<open>handleSend\<close> changes nothing: the
  messages, the input field, the requests issued, the toasts and the navigations are
  as before, in both variants of the component.
\<close>

theorem blank_input_is_noop:
  assumes "\<forall>c\<in>set (input s). is_ws c"
  shows "handleSend askQuestion chatId pdfId now0 now1 s = s
         \<and> handleSend_legacy askQuestion pdfId' now0 nowc now1 s = s"
  using assms
  by (simp add: handleSend_def handleSend_legacy_def handleSend_sync_def trim_empty_iff)

theorem blank_input_is_noop_witness:
  "handleSend backend_down (Some (lit ''chat_a'')) (lit ''a'') 5 7 (blank_state [0x20, 0x09, 0xA0])
     = blank_state [0x20, 0x09, 0xA0]
   \<and> handleSend_legacy backend_down (lit ''a'') 5 6 7 (blank_state [0x20, 0x09, 0xA0])
     = blank_state [0x20, 0x09, 0xA0]"
  using blank_input_is_noop [where s = "blank_state [0x20, 0x09, 0xA0]"
      and askQuestion = backend_down and chatId = "Some (lit ''chat_a'')" and pdfId = "lit ''a''"
      and pdfId' = "lit ''a''" and ?now0.0 = 5 and nowc = 6 and ?now1.0 = 7]
  by (simp add: blank_state_def is_ws_def)

text \<open>
  C9. When the resolver gives no session key, the asynchronous part of \<open>handleSend\<close> only
  shows the toast "Missing chat id": no request is issued, no message is appended and
  nothing is navigated to; the whole of \<open>handleSend\<close> issues no request either.
\<close>

theorem no_session_no_request:
  assumes "fst (resolve routeParam queryParam) = None"
  shows "ask_flow askQuestion (fst (resolve routeParam queryParam))
             (snd (resolve routeParam queryParam)) now um s
           = s\<lparr>toasts := toasts s @ [missingChatIdToast]\<rparr>
         \<and> requests (handleSend askQuestion (fst (resolve routeParam queryParam))
             (snd (resolve routeParam queryParam)) now0 now s) = requests s"
  using assms
  by (simp add: ask_flow_def handleSend_def handleSend_sync_def)

theorem no_session_no_request_witness:
  "ask_flow (backend_knows (lit ''chat_a'')) None [] 6 (userMessage 5 (lit ''hi''))
       (blank_state []) = (blank_state [])\<lparr>toasts := [missingChatIdToast]\<rparr>
   \<and> requests (handleSend (backend_knows (lit ''chat_a'')) None [] 5 6 (blank_state (lit ''hi'')))
       = []"
  using no_session_no_request [where routeParam = "Some (lit ''abc'')" and queryParam = None
      and askQuestion = "backend_knows (lit ''chat_a'')" and um = "userMessage 5 (lit ''hi'')"
      and now = 6 and ?now0.0 = 5 and s = "blank_state []"]
    no_session_no_request [where routeParam = "Some (lit ''abc'')" and queryParam = None
      and askQuestion = "backend_knows (lit ''chat_a'')" and um = "userMessage 5 (lit ''hi'')"
      and now = 6 and ?now0.0 = 5 and s = "blank_state (lit ''hi'')"]
  by (simp add: resolve_def effectiveChatId_def pdfId_of_def startsWith_def lit_def
      blank_state_def)

text \<open>
  C4. When the request against the primary key fails, the alternate key is \<open>chat_\<close>
  followed by the document key, undefined for an empty document key. If it is undefined
  or equal to the primary key, the only request is the primary one, the toast carries
  the message of the original error and the failure placeholder is appended.
  Otherwise there is exactly one more request, against the alternate key.
\<close>

theorem single_fallback_attempt:
  assumes "chatId = Some p" and "p \<noteq> []"
    and "askQuestion p (content um) = Rejected err"
  shows "fallbackChat pdfId = (if pdfId \<noteq> [] then Some (lit ''chat_'' @ pdfId) else None)
         \<and> (if fallbackChat pdfId = None \<or> fallbackChat pdfId = chatId
             then ask_flow askQuestion chatId pdfId now um s
                    = s\<lparr>requests := requests s @ [(p, content um)],
                        toasts := toasts s @ [serverErrorToast err],
                        messages := messages s @ [failureMessage (now + 4)]\<rparr>
             else requests (ask_flow askQuestion chatId pdfId now um s)
                    = requests s @ [(p, content um), (lit ''chat_'' @ pdfId, content um)])"
  using assms
  by (auto simp: ask_flow_def fallbackChat_def lit_chat_nonempty split: settled.split)

theorem single_fallback_attempt_witness:
  "ask_flow backend_down (Some (lit ''chat_a'')) (lit ''a'') 6 (userMessage 5 (lit ''hi''))
       (blank_state [])
     = (blank_state [])\<lparr>requests := [(lit ''chat_a'', lit ''hi'')],
          toasts := [serverErrorToast ask_failed], messages := [failureMessage 10]\<rparr>
   \<and> requests (ask_flow backend_down (Some (lit ''chat_x'')) (lit ''a'') 6
         (userMessage 5 (lit ''hi'')) (blank_state []))
     = [(lit ''chat_x'', lit ''hi''), (lit ''chat_a'', lit ''hi'')]"
  using single_fallback_attempt [where chatId = "Some (lit ''chat_a'')" and p = "lit ''chat_a''"
      and askQuestion = backend_down and um = "userMessage 5 (lit ''hi'')" and err = ask_failed
      and pdfId = "lit ''a''" and now = 6 and s = "blank_state []"]
    single_fallback_attempt [where chatId = "Some (lit ''chat_x'')" and p = "lit ''chat_x''"
      and askQuestion = backend_down and um = "userMessage 5 (lit ''hi'')" and err = ask_failed
      and pdfId = "lit ''a''" and now = 6 and s = "blank_state []"]
  by (simp add: backend_down_def fallbackChat_def lit_def userMessage_def blank_state_def)







section \<open>The history effect\<close>

lemma history_inv_init: "history_inv history_init"
  by (simp add: history_inv_def history_init_def)

lemma cleanup_effects:
  "heffects (history_cleanup s) =
     (case hcurrent s of None \<Rightarrow> heffects s
      | Some i \<Rightarrow> (heffects s)[i := (heffects s ! i)\<lparr>h_isMounted := False\<rparr>])"
  and cleanup_current: "hcurrent (history_cleanup s) = hcurrent s"
  and cleanup_gone: "hgone (history_cleanup s) = hgone s"
  and cleanup_messages: "messages (history_cleanup s) = messages s"
  by (simp_all add: history_cleanup_def split: option.split)

lemma history_inv_cleanup:
  assumes "history_inv s" and "i < length (heffects (history_cleanup s))"
  shows "\<not> h_isMounted (heffects (history_cleanup s) ! i)"
proof (cases "hcurrent s")
  case None
  with assms show ?thesis
    by (simp add: cleanup_effects history_inv_def)
next
  case (Some j)
  with assms show ?thesis
    by (cases "i = j") (auto simp: cleanup_effects history_inv_def)
qed

lemma start_effects:
  "heffects (loadHistory_start k s)
     = heffects s @ [\<lparr>h_key = k, h_isMounted = True, h_awaiting = truthy k\<rparr>]"
  and start_current: "hcurrent (loadHistory_start k s) = Some (length (heffects s))"
  and start_gone: "hgone (loadHistory_start k s) = hgone s"
  by (simp_all add: loadHistory_start_def)

lemma history_inv_start:
  assumes "\<forall>i < length (heffects s). \<not> h_isMounted (heffects s ! i)" and "\<not> hgone s"
  shows "history_inv (loadHistory_start k s)"
  using assms
  by (auto simp: history_inv_def start_effects start_current start_gone nth_append)

lemma history_inv_render:
  assumes "history_inv s"
  shows "history_inv (history_render k s)"
proof (cases "hgone s \<or> (\<exists>i. hcurrent s = Some i \<and> h_key (heffects s ! i) = k)")
  case True
  with assms show ?thesis
    by (auto simp: history_render_def)
next
  case False
  show ?thesis
  proof (cases "hcurrent s")
    case None
    with assms have "\<forall>i < length (heffects s). \<not> h_isMounted (heffects s ! i)"
      by (auto simp: history_inv_def)
    with None False show ?thesis
      by (simp add: history_render_def history_inv_start)
  next
    case (Some j)
    have "history_inv (loadHistory_start k (history_cleanup s))"
      using False history_inv_cleanup [OF assms]
      by (intro history_inv_start) (simp_all add: cleanup_gone)
    with Some False show ?thesis
      by (simp add: history_render_def)
  qed
qed

lemma settled_effects:
  "heffects (loadHistory_settled i r s)
     = (if i < length (heffects s) \<and> h_awaiting (heffects s ! i)
        then (heffects s)[i := (heffects s ! i)\<lparr>h_awaiting := False\<rparr>] else heffects s)"
  and settled_current: "hcurrent (loadHistory_settled i r s) = hcurrent s"
  and settled_gone: "hgone (loadHistory_settled i r s) = hgone s"
  by (simp_all add: loadHistory_settled_def split: settled.split)

lemma mounted_update_awaiting:
  "h_isMounted (xs[i := (xs ! i)\<lparr>h_awaiting := False\<rparr>] ! j) = h_isMounted (xs ! j)"
  by (cases "i = j"; cases "i < length xs") (simp_all add: list_update_beyond)

lemma history_inv_settled:
  assumes "history_inv s"
  shows "history_inv (loadHistory_settled i r s)"
proof -
  have len: "length (heffects (loadHistory_settled i r s)) = length (heffects s)"
    by (simp add: settled_effects)
  have mounted: "h_isMounted (heffects (loadHistory_settled i r s) ! j)
      = h_isMounted (heffects s ! j)" for j
    by (simp add: settled_effects mounted_update_awaiting)
  show ?thesis
    unfolding history_inv_def len mounted settled_current settled_gone
    by (rule assms [unfolded history_inv_def])
qed

lemma unmount_fields:
  "heffects (history_unmount s) = heffects (history_cleanup s)"
  "hcurrent (history_unmount s) = None"
  "hgone (history_unmount s) = True"
  "messages (history_unmount s) = messages s"
  by (simp_all add: history_unmount_def cleanup_messages)

lemma history_inv_unmount:
  assumes "history_inv s"
  shows "history_inv (history_unmount s)"
  unfolding history_inv_def unmount_fields
  using history_inv_cleanup [OF assms] by blast

lemma history_inv_step:
  assumes "history_inv s"
  shows "history_inv (history_step s e)"
proof (cases e)
  case (Render k)
  then show ?thesis by (simp add: history_inv_render [OF assms])
next
  case (Settled i r)
  then show ?thesis by (simp add: history_inv_settled [OF assms])
next
  case (Append m)
  have "history_inv (s\<lparr>messages := messages s @ [m]\<rparr>) = history_inv s"
    by (simp add: history_inv_def)
  with Append assms show ?thesis by simp
next
  case Unmount
  then show ?thesis by (simp add: history_inv_unmount [OF assms])
qed

lemma history_inv_foldl:
  "history_inv s \<Longrightarrow> history_inv (foldl history_step s es)"
  by (induction es arbitrary: s) (simp_all add: history_inv_step)

lemma history_inv_run: "history_inv (history_run es)"
  by (simp add: history_run_def history_inv_foldl history_inv_init)

lemma stale_cleanup: "stale i s \<Longrightarrow> stale i (history_cleanup s)"
  by (cases "hcurrent s"; cases "the (hcurrent s) = i")
     (auto simp: stale_def cleanup_effects)

lemma stale_start: "stale i s \<Longrightarrow> stale i (loadHistory_start k s)"
  by (simp add: stale_def start_effects nth_append)

lemma stale_settled: "stale i s \<Longrightarrow> stale i (loadHistory_settled j r s)"
  by (simp add: stale_def settled_effects mounted_update_awaiting)

lemma stale_step:
  assumes "stale i s"
  shows "stale i (history_step s e)"
proof (cases e)
  case (Render k)
  show ?thesis
    using assms stale_start [OF stale_cleanup [OF assms], of k] stale_start [OF assms, of k]
    by (simp add: Render history_render_def split: option.split)
next
  case (Settled j r)
  then show ?thesis by (simp add: stale_settled [OF assms])
next
  case (Append m)
  with assms show ?thesis by (simp add: stale_def)
next
  case Unmount
  with stale_cleanup [OF assms] show ?thesis
    by (simp add: stale_def unmount_fields)
qed

lemma stale_foldl: "stale i s \<Longrightarrow> stale i (foldl history_step s es)"
  by (induction es arbitrary: s) (simp_all add: stale_step)

lemma stale_after_change:
  assumes inv: "history_inv s" and i: "i < length (heffects s)"
    and key: "h_key (heffects s ! i) = Some a" and ne: "b \<noteq> Some a"
  shows "stale i (history_render b s)"
proof (cases "h_isMounted (heffects s ! i)")
  case False
  with i have "stale i s" by (simp add: stale_def)
  then show ?thesis
    using stale_step [of i s "Render b"] by simp
next
  case True
  with inv i have cur: "hcurrent s = Some i"
    unfolding history_inv_def by blast
  with inv have alive: "\<not> hgone s"
    unfolding history_inv_def by blast
  have "stale i (history_cleanup s)"
    using i cur by (simp add: stale_def cleanup_effects)
  then have "stale i (loadHistory_start b (history_cleanup s))"
    by (rule stale_start)
  with alive cur key ne show ?thesis
    by (auto simp: history_render_def)
qed

lemma stale_result_ignored:
  assumes "stale i s"
  shows "messages (loadHistory_settled i r s) = messages s"
    and "historyError (loadHistory_settled i r s) = historyError s"
    and "isLoadingHistory (loadHistory_settled i r s) = isLoadingHistory s"
  using assms by (simp_all add: stale_def loadHistory_settled_def)

text \<open>
  C6. Let a load of the history have been started for the session key \<open>a\<close> (the run
  \<open>i\<close> of the effect, in any reachable state), and let the session then change to
  another key \<open>b\<close>. Whatever happens next, when the request of that load settles, with
  any result, the messages stay as they are, and so do the error and the loading flag.
\<close>

theorem stale_history_result_discarded:
  assumes "s = history_run es"
    and "i < length (heffects s)" and "h_key (heffects s ! i) = Some a"
    and "b \<noteq> Some a"
    and "s' = foldl history_step (history_step s (Render b)) es'"
  shows "messages (history_step s' (Settled i r)) = messages s'
         \<and> historyError (history_step s' (Settled i r)) = historyError s'
         \<and> isLoadingHistory (history_step s' (Settled i r)) = isLoadingHistory s'"
proof -
  have "history_inv s"
    using assms(1) by (simp add: history_inv_run)
  then have "stale i (history_step s (Render b))"
    using stale_after_change [OF _ assms(2,3,4)] by simp
  then have "stale i s'"
    using assms(5) by (simp add: stale_foldl)
  then show ?thesis
    by (simp add: stale_result_ignored)
qed

theorem stale_history_result_discarded_witness:
  "messages (history_step
       (history_run [Render (Some (lit ''chat_a'')), Render (Some (lit ''chat_b''))])
       (Settled 0 (Fulfilled [an_interaction])))
   = messages (history_run [Render (Some (lit ''chat_a'')), Render (Some (lit ''chat_b''))])"
proof -
  have run: "history_run [Render (Some (lit ''chat_a'')), Render (Some (lit ''chat_b''))]
      = foldl history_step
          (history_step (history_run [Render (Some (lit ''chat_a''))])
             (Render (Some (lit ''chat_b'')))) []"
    by (simp add: history_run_def)
  have started: "heffects (history_run [Render (Some (lit ''chat_a''))])
      = [\<lparr>h_key = Some (lit ''chat_a''), h_isMounted = True, h_awaiting = True\<rparr>]"
    by (simp add: history_run_def history_init_def history_render_def loadHistory_start_def
        lit_def)
  have ne: "Some (lit ''chat_b'') \<noteq> Some (lit ''chat_a'')"
    by (simp add: lit_def)
  have "0 < length (heffects (history_run [Render (Some (lit ''chat_a''))]))"
    and "h_key (heffects (history_run [Render (Some (lit ''chat_a''))]) ! 0)
      = Some (lit ''chat_a'')"
    by (simp_all add: started)
  from stale_history_result_discarded [OF refl this ne run, of "Fulfilled [an_interaction]"]
  show ?thesis by simp
qed

text \<open>
  In the component with \<open>effectiveChatId\<close>, a history without interactions gives exactly
  one assistant message, and its text is not the text of the message of a failed load.
\<close>

lemma placeholder_texts_differ: "noInteractionsText \<noteq> readyText"
  by (simp add: noInteractionsText_def readyText_def lit_def)

lemma empty_history_placeholder:
  "history_loaded [] = [welcomeMessage noInteractionsText]
   \<and> history_failed = [welcomeMessage readyText]
   \<and> msg_role (welcomeMessage noInteractionsText) = Assistant
   \<and> content (welcomeMessage noInteractionsText) \<noteq> content (welcomeMessage readyText)"
  by (simp add: history_loaded_def history_failed_def welcomeMessage_def
      placeholder_texts_differ)

lemma history_settled_current:
  assumes "i < length (heffects s)" and "h_awaiting (heffects s ! i)"
    and "h_isMounted (heffects s ! i)"
  shows "messages (loadHistory_settled i (Fulfilled []) s) = [welcomeMessage noInteractionsText]"
    and "messages (loadHistory_settled i (Rejected err) s) = [welcomeMessage readyText]"
  using assms
  by (simp_all add: loadHistory_settled_def history_loaded_def history_failed_def)

text \<open>
  C8. \<open>loadHistory\<close> of \<open>src/pages/Chat.tsx\<close> does not have the placeholder: when the
  backend returns no interaction for the document \<open>doc1\<close>, the messages are empty, where
  the component with \<open>effectiveChatId\<close> shows its one assistant message.
\<close>

theorem empty_history_legacy_shows_nothing:
  "messages (loadHistory_settled_legacy 0 (Fulfilled [])
       (loadHistory_start_legacy (lit ''doc1'') history_init)) = []
   \<and> messages (history_run [Render (Some (lit ''chat_doc1'')), Settled 0 (Fulfilled [])])
       = [welcomeMessage noInteractionsText]"
  by (simp add: loadHistory_settled_legacy_def loadHistory_start_legacy_def
      history_loaded_legacy_def history_init_def history_run_def history_render_def
      loadHistory_start_def loadHistory_settled_def history_loaded_def lit_def)

section \<open>The document effect\<close>

lemma pdf_inv_init: "pdf_inv pdf_init"
  by (simp add: pdf_inv_def pdf_init_def)

lemma pdf_idle_cleanup:
  assumes "pdf_inv s"
  shows "pdf_idle (pdf_cleanup s)"
proof (cases "pcurrent s")
  case None
  with assms show ?thesis
    by (simp add: pdf_inv_def pdf_idle_def pdf_cleanup_def)
next
  case (Some j)
  with assms have j: "j < length (peffects s)"
    and live: "liveUrls s = (case p_url (peffects s ! j) of None \<Rightarrow> [] | Some u \<Rightarrow> [u])"
    and mounted: "\<And>i. i < length (peffects s) \<Longrightarrow> p_isMounted (peffects s ! i) = (i = j)"
    and fresh: "\<And>i. i < length (peffects s) \<Longrightarrow> p_awaiting (peffects s ! i)
       \<Longrightarrow> p_url (peffects s ! i) = None"
    by (auto simp: pdf_inv_def)
  show ?thesis
  proof (cases "p_url (peffects s ! j)")
    case None
    with Some j live show ?thesis
      by (auto simp: pdf_idle_def pdf_cleanup_def nth_list_update mounted fresh)
  next
    case (Some u)
    with \<open>pcurrent s = Some j\<close> j live show ?thesis
      by (auto simp: pdf_idle_def pdf_cleanup_def revokeObjectURL_def nth_list_update
          mounted fresh)
  qed
qed

lemma pdf_inv_start:
  assumes "pdf_idle s" and "\<not> pgone s"
  shows "pdf_inv (loadPdf_start pdfId s)"
  using assms
  by (auto simp: pdf_idle_def pdf_inv_def loadPdf_start_def loadPdf_start_with_def nth_append)

lemma pdf_cleanup_gone: "pgone (pdf_cleanup s) = pgone s"
  by (simp add: pdf_cleanup_def revokeObjectURL_def split: option.split)

lemma pdf_inv_render:
  assumes "pdf_inv s"
  shows "pdf_inv (pdf_render pdfId s)"
proof (cases "pgone s")
  case True
  with assms show ?thesis by (simp add: pdf_render_def)
next
  case alive: False
  show ?thesis
  proof (cases "pcurrent s")
    case None
    with assms have "pdf_idle s"
      by (simp add: pdf_inv_def pdf_idle_def)
    with None alive show ?thesis
      by (simp add: pdf_render_def pdf_inv_start)
  next
    case (Some j)
    have "pdf_inv (loadPdf_start pdfId (pdf_cleanup s))"
      using alive by (intro pdf_inv_start pdf_idle_cleanup assms) (simp add: pdf_cleanup_gone)
    with Some alive assms show ?thesis
      by (simp add: pdf_render_def)
  qed
qed

lemma pdf_inv_settled:
  assumes "pdf_inv s"
  shows "pdf_inv (loadPdf_settled i r s)"
proof (cases "i < length (peffects s) \<and> p_awaiting (peffects s ! i)")
  case False
  with assms show ?thesis by (auto simp: loadPdf_settled_def)
next
  case True
  then have i: "i < length (peffects s)" and aw: "p_awaiting (peffects s ! i)"
    by simp_all
  from assms have mounted:
      "\<And>k. k < length (peffects s) \<Longrightarrow> p_isMounted (peffects s ! k) = (pcurrent s = Some k)"
    and fresh: "\<And>k. k < length (peffects s) \<Longrightarrow> p_awaiting (peffects s ! k)
       \<Longrightarrow> p_url (peffects s ! k) = None"
    and live: "case pcurrent s of
            None \<Rightarrow> liveUrls s = []
          | Some i \<Rightarrow>
              i < length (peffects s) \<and> \<not> pgone s
              \<and> liveUrls s = (case p_url (peffects s ! i) of None \<Rightarrow> [] | Some u \<Rightarrow> [u])"
    by (simp_all add: pdf_inv_def)
  show ?thesis
  proof (cases r)
    case (Rejected err)
    with i aw live show ?thesis
      by (auto simp: pdf_inv_def loadPdf_settled_def nth_list_update mounted fresh
          split: option.splits)
  next
    case (Fulfilled b)
    show ?thesis
    proof (cases "pcurrent s = Some i")
      case False
      with Fulfilled i aw live show ?thesis
        by (auto simp: pdf_inv_def loadPdf_settled_def nth_list_update mounted fresh
            split: option.splits)
    next
      case cur: True
      with live fresh [OF i aw] have "liveUrls s = []" and "\<not> pgone s"
        by simp_all
      with Fulfilled i aw cur show ?thesis
        by (auto simp: pdf_inv_def loadPdf_settled_def nth_list_update mounted fresh)
    qed
  qed
qed

lemma pdf_inv_unmount:
  assumes "pdf_inv s"
  shows "pdf_inv (pdf_unmount s)"
  using pdf_idle_cleanup [OF assms]
  by (simp add: pdf_inv_def pdf_idle_def pdf_unmount_def)

lemma pdf_inv_step:
  assumes "pdf_inv s"
  shows "pdf_inv (pdf_step s e)"
  by (cases e) (simp_all add: assms pdf_inv_render pdf_inv_settled pdf_inv_unmount)

lemma pdf_inv_foldl: "pdf_inv s \<Longrightarrow> pdf_inv (foldl pdf_step s es)"
  by (induction es arbitrary: s) (simp_all add: pdf_inv_step)

lemma pdf_inv_run: "pdf_inv (pdf_run es)"
  by (simp add: pdf_run_def pdf_inv_foldl pdf_inv_init)

lemma pdf_inv_live:
  assumes "pdf_inv s"
  shows "length (liveUrls s) \<le> 1" and "pgone s \<Longrightarrow> liveUrls s = []"
  using assms
  by (auto simp: pdf_inv_def split: option.splits)

lemma pgone_unmount: "pgone (pdf_unmount s)"
  by (simp add: pdf_unmount_def)

lemma pgone_step: "pgone s \<Longrightarrow> pgone (pdf_step s e)"
  by (cases e)
     (simp_all add: pdf_render_def loadPdf_settled_def pdf_unmount_def split: settled.split)

lemma pgone_foldl: "pgone s \<Longrightarrow> pgone (foldl pdf_step s es)"
  by (induction es arbitrary: s) (simp_all add: pgone_step)

text \<open>
  In the component with \<open>currentUrl\<close>, whatever happens, at most one object URL is live,
  and none is live once the component has unmounted.
\<close>

lemma one_live_url:
  "length (liveUrls (pdf_run es)) \<le> 1
   \<and> liveUrls (pdf_run (es @ PdfUnmount # es')) = []"
proof -
  have "pgone (pdf_run (es @ PdfUnmount # es'))"
    by (simp add: pdf_run_def pgone_foldl pgone_unmount)
  then show ?thesis
    using pdf_inv_live [OF pdf_inv_run] by simp
qed

text \<open>
  C7. In \<open>src/pages/Chat.tsx\<close> the cleanup revokes the \<open>pdfUrl\<close> of the render that made
  the run, not the URL that the run has created since. The first URL is still live
  after the component has unmounted, and after a change of document two URLs are live
  together. On the same events the component with \<open>currentUrl\<close> has no URL left, and
  one.
\<close>

theorem legacy_urls_leak:
  "liveUrls (pdf_run_legacy [PdfRender (lit ''a''), PdfSettled 0 (Fulfilled a_blob), PdfUnmount])
     = [0]
   \<and> liveUrls (pdf_run_legacy [PdfRender (lit ''a''), PdfSettled 0 (Fulfilled a_blob),
        PdfRender (lit ''b''), PdfSettled 1 (Fulfilled a_blob)]) = [0, 1]
   \<and> liveUrls (pdf_run [PdfRender (lit ''a''), PdfSettled 0 (Fulfilled a_blob), PdfUnmount])
     = []
   \<and> liveUrls (pdf_run [PdfRender (lit ''a''), PdfSettled 0 (Fulfilled a_blob),
        PdfRender (lit ''b''), PdfSettled 1 (Fulfilled a_blob)]) = [1]"
  by (simp add: pdf_run_legacy_def pdf_run_def pdf_init_def pdf_render_legacy_def
      pdf_render_def loadPdf_start_legacy_def loadPdf_start_def loadPdf_start_with_def
      loadPdf_settled_legacy_def loadPdf_settled_def pdf_unmount_def pdf_cleanup_def
      revokeObjectURL_def lit_def)

end
